theory Spec2Isabelle
  imports Complex_Main "HOL-Library.Sublist"
begin

section \<open>Values of the cloud client\<close>

text \<open>
  A shallow embedding of the Go package \<open>mailrucloud\<close>. Go strings are byte strings
  and are modelled as \<open>string\<close> (a list of 8-bit characters). Go's \<open>int64\<close> and
  \<open>int\<close> values are modelled as \<open>int\<close>; the modelled code only compares and copies
  them, and where it multiplies them the wrap-around is written out (\<open>wrap64\<close>).
\<close>

subsection \<open>Size (types.go)\<close>

datatype StorageUnit =
  StorageUnitByte | StorageUnitKB | StorageUnitMB | StorageUnitGB | StorageUnitTB

text \<open>
  \<open>NormalizedValue\<close> is a \<open>float64\<close> in the source. It is modelled by the exact
  rational the float operations approximate: dividing by 1024.0 is exact in binary
  floating point, and the product with 100 is exact as long as the byte count stays below
  \<open>2^53 / 100\<close>; the last division by 100.0 is the nearest float to the rational given
  here. Go's conversion \<open>int(x)\<close> of a float truncates towards zero (\<open>trunc\<close>).
\<close>

record Size =
  DefaultValue :: int
  NormalizedValue :: rat
  NormalizedType :: StorageUnit

definition trunc :: "rat \<Rightarrow> int" where
  "trunc x = (if 0 \<le> x then \<lfloor>x\<rfloor> else \<lceil>x\<rceil>)"

definition setNormalizedValue :: "Size \<Rightarrow> Size" where
  "setNormalizedValue s =
    (let s1 =
      (if DefaultValue s < 1024 then
         s\<lparr>NormalizedType := StorageUnitByte,
           NormalizedValue := of_int (DefaultValue s)\<rparr>
       else if DefaultValue s \<ge> 1024 \<and> DefaultValue s < 1048576 then
         s\<lparr>NormalizedType := StorageUnitKB,
           NormalizedValue := of_int (DefaultValue s) / 1024\<rparr>
       else if DefaultValue s \<ge> 1048576 \<and> DefaultValue s < 1073741824 then
         s\<lparr>NormalizedType := StorageUnitMB,
           NormalizedValue := of_int (DefaultValue s) / 1024 / 1024\<rparr>
       else if DefaultValue s \<ge> 1073741824 \<and> DefaultValue s < 1099511627776 then
         s\<lparr>NormalizedType := StorageUnitGB,
           NormalizedValue := of_int (DefaultValue s) / 1024 / 1024 / 1024\<rparr>
       else
         s\<lparr>NormalizedType := StorageUnitTB,
           NormalizedValue := of_int (DefaultValue s) / 1024 / 1024 / 1024 / 1024\<rparr>)
     in s1\<lparr>NormalizedValue := of_int (trunc (NormalizedValue s1 * 100)) / 100\<rparr>)"

definition NewSize :: "int \<Rightarrow> Size" where
  "NewSize sourceValue =
    setNormalizedValue
      \<lparr>DefaultValue = sourceValue, NormalizedValue = 0, NormalizedType = StorageUnitByte\<rparr>"


subsection \<open>Tariffs and the account (types.go, account.go)\<close>

text \<open>
  A \<open>Rate\<close> is one tariff. Its \<open>Cost\<close> list only describes billing and is left out.
  Several structs of the source share field names (\<open>Name\<close>, \<open>Size\<close>, \<open>Hash\<close>); a
  field is written with its record in front (\<open>Rate.ID\<close>) where that matters.
\<close>

record Rate =
  Name :: string
  IsActive :: bool
  ID :: string
  IsAvailable :: bool
  Size :: "Size option"
  SizeBytes :: int

text \<open>
  The account. \<open>ActivatedTariffs\<close> is a slice of pointers that \<open>Login\<close> fills with
  the decoded tariffs (none of them nil). \<open>cookies\<close> tells whether the cookie jar pointer
  is set. The HTTP client of the account is the transport of the environment below.
\<close>

record Account =
  Email :: string
  Password :: string
  ActivatedTariffs :: "Rate list"
  authToken :: string
  cookies :: bool

text \<open>
  \<open>Has2GBUploadSizeLimit\<close>: the loop returns false at the first tariff whose ID is not
  \<open>ZERO\<close> and true when it runs off the end of the list.
\<close>

fun allTariffsZERO :: "Rate list \<Rightarrow> bool" where
  "allTariffsZERO [] = True"
| "allTariffsZERO (rate # rest) = (if Rate.ID rate \<noteq> ''ZERO'' then False else allTariffsZERO rest)"

definition Has2GBUploadSizeLimit :: "Account \<Rightarrow> bool" where
  "Has2GBUploadSizeLimit a = allTariffsZERO (ActivatedTariffs a)"

subsection \<open>Paths (cloud_client.go)\<close>

definition isSlash :: "char \<Rightarrow> bool" where
  "isSlash c = (c = CHR ''/'' \<or> c = CHR 0x5C)"

text \<open>
  The regular expression replacement at the end of \<open>getPathStartEndSlash\<close>: one left-to-right scan
  that writes a single \<open>/\<close> for every maximal run of slashes and backslashes. The flag
  tells whether the scan is inside such a run.
\<close>

fun replaceSlashRuns :: "bool \<Rightarrow> string \<Rightarrow> string" where
  "replaceSlashRuns inRun [] = []"
| "replaceSlashRuns inRun (c # cs) =
    (if isSlash c then
       (if inRun then replaceSlashRuns True cs else CHR ''/'' # replaceSlashRuns True cs)
     else c # replaceSlashRuns False cs)"

definition getPathStartEndSlash :: "string \<Rightarrow> bool \<Rightarrow> bool \<Rightarrow> string" where
  "getPathStartEndSlash path setAtStart setAtEnd =
    (let p1 = (if setAtStart then ''/'' @ path else path);
         p2 = (if setAtEnd then p1 @ ''/'' else p1)
     in replaceSlashRuns False p2)"

subsection \<open>Strings (the Go standard library, as far as the client uses it)\<close>

definition HasPrefix :: "string \<Rightarrow> string \<Rightarrow> bool" where
  "HasPrefix s pre = prefix pre s"

definition HasSuffix :: "string \<Rightarrow> string \<Rightarrow> bool" where
  "HasSuffix s suf = suffix suf s"

definition TrimSuffix :: "string \<Rightarrow> string \<Rightarrow> string" where
  "TrimSuffix s suf = (if HasSuffix s suf then take (length s - length suf) s else s)"

text \<open>\<open>strings.LastIndex\<close> for a one-byte separator: the last index of the byte, or -1.\<close>

definition LastIndex :: "string \<Rightarrow> char \<Rightarrow> int" where
  "LastIndex s c =
    (if c \<in> set s
     then int (length s) - 1 - int (length (takeWhile (\<lambda>d. d \<noteq> c) (rev s)))
     else - 1)"

text \<open>\<open>strings.Replace(s, old, new, 1)\<close>: the first occurrence of \<open>old\<close> is replaced.\<close>

fun ReplaceFirst :: "string \<Rightarrow> string \<Rightarrow> string \<Rightarrow> string" where
  "ReplaceFirst [] old new = (if old = [] then new else [])"
| "ReplaceFirst (c # cs) old new =
    (if prefix old (c # cs) then new @ drop (length old) (c # cs)
     else c # ReplaceFirst cs old new)"

text \<open>
  \<open>strings.ToLower\<close> on the ASCII letters. Go also lower-cases letters outside ASCII;
  the client only uses it to compare file extensions, and no statement below depends on it.
\<close>

definition toLowerChar :: "char \<Rightarrow> char" where
  "toLowerChar c =
    (case map_of (zip ''ABCDEFGHIJKLMNOPQRSTUVWXYZ'' ''abcdefghijklmnopqrstuvwxyz'') c of
       Some l \<Rightarrow> l
     | None \<Rightarrow> c)"

definition ToLower :: "string \<Rightarrow> string" where
  "ToLower s = map toLowerChar s"

fun Join :: "string list \<Rightarrow> string \<Rightarrow> string" where
  "Join [] sep = []"
| "Join [x] sep = x"
| "Join (x # y # ys) sep = x @ sep @ Join (y # ys) sep"

text \<open>\<open>filepath.Base\<close> and \<open>filepath.Ext\<close>, with the separator \<open>/\<close> (a Unix build).\<close>

definition filepath_Base :: "string \<Rightarrow> string" where
  "filepath_Base path =
    (if path = [] then ''.''
     else
       (let stripped = rev (dropWhile (\<lambda>c. c = CHR ''/'') (rev path));
            element = rev (takeWhile (\<lambda>c. c \<noteq> CHR ''/'') (rev stripped))
        in if element = [] then ''/'' else element))"

definition filepath_Ext :: "string \<Rightarrow> string" where
  "filepath_Ext path =
    (let element = takeWhile (\<lambda>c. c \<noteq> CHR ''/'') (rev path)
     in if CHR ''.'' \<in> set element
        then CHR ''.'' # rev (takeWhile (\<lambda>c. c \<noteq> CHR ''.'') element)
        else [])"

text \<open>The verb \<open>%d\<close> of \<open>fmt.Sprintf\<close>: a decimal numeral.\<close>

fun showNat :: "nat \<Rightarrow> string" where
  "showNat n =
    (if n < 10 then [''0123456789'' ! n]
     else showNat (n div 10) @ [''0123456789'' ! (n mod 10)])"

declare showNat.simps [simp del]

definition showInt :: "int \<Rightarrow> string" where
  "showInt i = (if i < 0 then CHR ''-'' # showNat (nat (- i)) else showNat (nat i))"

text \<open>
  \<open>getParentCloudPath\<close>: one trailing slash is dropped, and the path is cut after its
  last slash; a path with no slash has the parent \<open>/\<close>.
\<close>

definition getParentCloudPath :: "string \<Rightarrow> string" where
  "getParentCloudPath path0 =
    (let path = TrimSuffix path0 ''/'';
         lastIndex = LastIndex path (CHR ''/'')
     in if lastIndex = - 1 then ''/'' else take (nat (lastIndex + 1)) path)"

subsection \<open>Errors (errors.go)\<close>

datatype ErrorCode =
    ErrorCodeNone
  | ErrorCodePathNotExists
  | ErrorCodeUploadingSizeLimit
  | ErrorCodeDownloadingSizeLimit
  | ErrorCodeDifferentParentPaths
  | ErrorCodeHistoryNotExists
  | ErrorCodeNotSupportedOperation
  | ErrorCodePublicLinkNotExists

text \<open>
  The error values of the client. \<open>CloudClientError\<close> holds \<open>Message\<close>, \<open>Source\<close> and
  \<open>ErrorCode\<close>; \<open>NotAuthorizedError\<close> holds \<open>Message\<close> and \<open>Source\<close>. The messages of
  the source are Russian; they are given here in English. The other constructors are the
  errors the client passes on unchanged: a failed \<open>http.NewRequest\<close> or \<open>Client.Do\<close>, a
  failed \<open>io.ReadAll\<close>, a failed JSON decoding, an error made with \<open>fmt.Errorf\<close>, and
  the run-time panic of a nil pointer dereference.
\<close>

datatype error =
    CloudClientError string string ErrorCode
  | NotAuthorizedError string string
  | TransportError
  | ReadError
  | DecodeError
  | Errorf string
  | NilPointerPanic

text \<open>What a call returned: an error of the given kind.\<close>

fun failsWith :: "error + 'a \<Rightarrow> ErrorCode \<Rightarrow> bool" where
  "failsWith (Inl (CloudClientError message source code)) kind = (code = kind)"
| "failsWith (Inl other) kind = False"
| "failsWith (Inr v) kind = False"

subsection \<open>Entries, history and shards (types.go, file.go, folder.go)\<close>

text \<open>
  A \<open>time.Time\<close> is modelled by its nanoseconds since the Unix epoch. \<open>zeroTime\<close> is the
  zero value of \<open>time.Time\<close> (1 January of year 1), the one \<open>IsZero\<close> recognises.
\<close>

type_synonym GoTime = int

definition zeroTime :: GoTime where
  "zeroTime = - 62135596800 * 1000000000"

definition Unix :: "int \<Rightarrow> int \<Rightarrow> GoTime" where
  "Unix sec nsec = sec * 1000000000 + nsec"

record CloudClient =
  Account :: Account

record CloudStructureEntryBase =
  Name :: string
  Size :: "Size option"
  FullPath :: string
  PublicLink :: string
  FilesCount :: int
  FoldersCount :: int
  account :: "Account option"
  client :: "CloudClient option"

text \<open>
  \<open>File\<close> and \<open>Folder\<close> embed \<open>CloudStructureEntryBase\<close>; the embedded struct is the
  field \<open>Base\<close>. \<open>Folder\<close> declares \<open>FoldersCount\<close> and \<open>FilesCount\<close> a second time:
  in Go the selector \<open>f.FilesCount\<close> of a folder is the folder's own field
  (\<open>Folder.FilesCount\<close>), not the embedded one
  (\<open>CloudStructureEntryBase.FilesCount (Folder.Base f)\<close>).
\<close>

record Count =
  Folders :: int
  Files :: int

record Sort =
  By :: string
  Asc :: bool

datatype CloudStructureEntry =
  CloudStructureEntry
    (Count: "Count option") (Tree: string) (Name: string) (Grev: string) (Size: int)
    (Sort: "Sort option") (Kind: string) (Rev: int) (Type: string) (Home: string)
    (Weblink: string) (Mtime: int) (Time: int) (VirusScan: string) (Hash: string)
    (List: "CloudStructureEntry list option")

record File =
  Base :: CloudStructureEntryBase
  Hash :: string
  LastModifiedTimeUTC :: GoTime

record Folder =
  Base :: CloudStructureEntryBase
  FoldersCount :: int
  FilesCount :: int
  Items :: "CloudStructureEntry list option"
  prevDiskUsed :: int
  lastItemsGettingTime :: GoTime

record DiskUsage =
  Total :: Size
  Used :: Size
  Free :: Size

record History =
  ID :: int
  LastModifiedTimeUTC :: GoTime
  Name :: string
  FullPath :: string
  Size :: "Size option"
  IsCurrentVersion :: bool
  Revision :: int
  Hash :: string
  LastModifiedTimeUnix :: int
  SizeBytes :: int

record ShardInfo =
  Count :: int
  URL :: string

record ShardsList =
  Video :: "ShardInfo list"
  ViewDirect :: "ShardInfo list"
  WeblinkView :: "ShardInfo list"
  WeblinkVideo :: "ShardInfo list"
  WeblinkGet :: "ShardInfo list"
  Stock :: "ShardInfo list"
  WeblinkThumbnails :: "ShardInfo list"
  Web :: "ShardInfo list"
  Auth :: "ShardInfo list"
  View :: "ShardInfo list"
  Get :: "ShardInfo list"
  Upload :: "ShardInfo list"
  Thumbnails :: "ShardInfo list"

text \<open>
  One history entry as the server sends it: the JSON keys the struct tags of \<open>History\<close>
  name (\<open>uid\<close>, \<open>name\<close>, \<open>path\<close>, \<open>rev\<close>, \<open>hash\<close>, \<open>time\<close>, \<open>size\<close>). Decoding
  fills the tagged fields; \<open>LastModifiedTimeUTC\<close>, \<open>Size\<close> and \<open>IsCurrentVersion\<close> have
  no tag and no key in the server's objects, so they keep Go's zero values.
\<close>

record HistoryJSON =
  json_uid :: int
  json_name :: string
  json_path :: string
  json_rev :: int
  json_hash :: string
  json_time :: int
  json_size :: int

definition decodeHistory :: "HistoryJSON \<Rightarrow> History" where
  "decodeHistory j =
    \<lparr>History.ID = json_uid j,
     History.LastModifiedTimeUTC = zeroTime,
     History.Name = json_name j,
     History.FullPath = json_path j,
     History.Size = None,
     History.IsCurrentVersion = False,
     History.Revision = json_rev j,
     History.Hash = json_hash j,
     History.LastModifiedTimeUnix = json_time j,
     History.SizeBytes = json_size j\<rparr>"

section \<open>The server and the clock\<close>

text \<open>
  Every network call of the client goes through \<open>Do\<close>. A request is the method, the URL,
  the form fields of a POST (each value printed with \<open>%v\<close>) and the body of an upload;
  the headers (a fixed user agent and content type) are left out. The world records every
  request the client hands to the transport, in order, and counts the readings of the
  clock. The environment is what the client cannot decide: the answer to the n-th request
  and the n-th reading of the clock.

  An answer is either no response (\<open>http.NewRequest\<close> or \<open>Client.Do\<close> returned an error)
  or a status code with a body. A body is given by what reading and decoding it yields for
  the caller that receives it: \<open>Unreadable\<close> when \<open>io.ReadAll\<close> fails, \<open>Undecodable\<close> when
  the JSON decoding fails, and otherwise the decoded value; a body of another shape than
  the caller decodes is a decoding error.
\<close>

datatype formValue = FormString string | FormInt int

fun showValue :: "formValue \<Rightarrow> string" where
  "showValue (FormString v) = v"
| "showValue (FormInt i) = showInt i"

record request =
  Method :: string
  URL :: string
  Form :: "string \<rightharpoonup> string"
  Content :: string

datatype body =
    Unreadable
  | Undecodable
  | JSONString string
  | JSONEntry CloudStructureEntry
  | JSONHistory "HistoryJSON list"
  | JSONShards ShardsList
  | JSONSpace rat rat

datatype response = NoResponse | Response int body

record env =
  server :: "nat \<Rightarrow> request \<Rightarrow> response"
  clock :: "nat \<Rightarrow> GoTime"

record world =
  requests :: "request list"
  clockReads :: nat

definition Do :: "env \<Rightarrow> request \<Rightarrow> world \<Rightarrow> response \<times> world" where
  "Do E req w = (server E (length (requests w)) req, w\<lparr>requests := requests w @ [req]\<rparr>)"

definition Now :: "env \<Rightarrow> world \<Rightarrow> GoTime \<times> world" where
  "Now E w = (clock E (clockReads w), w\<lparr>clockReads := Suc (clockReads w)\<rparr>)"

definition GET :: "string \<Rightarrow> request" where
  "GET url = \<lparr>Method = ''GET'', URL = url, Form = Map.empty, Content = []\<rparr>"

definition POST :: "string \<Rightarrow> (string \<rightharpoonup> formValue) \<Rightarrow> request" where
  "POST url vals =
    \<lparr>Method = ''POST'', URL = url, Form = (\<lambda>k. map_option showValue (vals k)), Content = []\<rparr>"

definition PUT :: "string \<Rightarrow> string \<Rightarrow> request" where
  "PUT url content = \<lparr>Method = ''PUT'', URL = url, Form = Map.empty, Content = content\<rparr>"

text \<open>\<open>io.ReadAll\<close> followed by the decoding into the shape the caller asks for.\<close>

fun readString :: "body \<Rightarrow> error + string" where
  "readString Unreadable = Inl ReadError"
| "readString (JSONString v) = Inr v"
| "readString other = Inl DecodeError"

fun readEntry :: "body \<Rightarrow> error + CloudStructureEntry" where
  "readEntry Unreadable = Inl ReadError"
| "readEntry (JSONEntry v) = Inr v"
| "readEntry other = Inl DecodeError"

fun readHistory :: "body \<Rightarrow> error + History list" where
  "readHistory Unreadable = Inl ReadError"
| "readHistory (JSONHistory v) = Inr (map decodeHistory v)"
| "readHistory other = Inl DecodeError"

fun readShards :: "body \<Rightarrow> error + ShardsList" where
  "readShards Unreadable = Inl ReadError"
| "readShards (JSONShards v) = Inr v"
| "readShards other = Inl DecodeError"

text \<open>
  The disk space answer is decoded into a map, and the numbers \<open>bytes_total\<close> and
  \<open>bytes_used\<close> are read from it as \<open>float64\<close> (0 when a key is missing).
\<close>

fun readSpace :: "body \<Rightarrow> error + rat \<times> rat" where
  "readSpace Unreadable = Inl ReadError"
| "readSpace (JSONSpace bytesTotal bytesUsed) = Inr (bytesTotal, bytesUsed)"
| "readSpace other = Inl DecodeError"

subsection \<open>The addresses (constants.go)\<close>

text \<open>
  The format strings of the source, applied to their arguments. \<open>PublicLinkPrefix\<close> is the
  constant \<open>PublicLink\<close>, and \<open>UploadFileURL\<close> the constant \<open>UploadFile\<close>.
\<close>

definition BaseMailRuCloud :: string where
  "BaseMailRuCloud = ''https://cloud.mail.ru''"

definition DiskSpace :: "string \<Rightarrow> string \<Rightarrow> string" where
  "DiskSpace email token = ''/api/v2/user/space?api=2&email='' @ email @ ''&token='' @ token"

definition ItemsList :: "string \<Rightarrow> string \<Rightarrow> string" where
  "ItemsList token home = ''/api/v2/folder?token='' @ token @ ''&home='' @ home"

definition PublicLinkPrefix :: string where
  "PublicLinkPrefix = ''https://cloud.mail.ru/public/''"

definition Dispatcher :: "string \<Rightarrow> string" where
  "Dispatcher token = ''/api/v2/dispatcher?token='' @ token"

definition UploadFileURL :: "string \<Rightarrow> string \<Rightarrow> string" where
  "UploadFileURL shard email = shard @ ''?cloud_domain=2&x-email='' @ email"

definition CreateFileOrFolder :: "string \<Rightarrow> string" where
  "CreateFileOrFolder operationType = ''/api/v2/'' @ operationType @ ''/add''"

definition CreateZipArchive :: string where
  "CreateZipArchive = ''/api/v2/zip''"

definition FileRequest :: string where
  "FileRequest = ''/api/v2/file/''"

definition HistoryURL :: "string \<Rightarrow> string \<Rightarrow> string \<Rightarrow> string \<Rightarrow> string" where
  "HistoryURL home email xemail token =
    ''/api/v2/file/history?home='' @ home @ ''&api=2&email='' @ email @ ''&x-email='' @ xemail
      @ ''&token='' @ token"

section \<open>The account (account.go)\<close>

definition wrap64 :: "int \<Rightarrow> int" where
  "wrap64 x = (x + 2 ^ 63) mod 2 ^ 64 - 2 ^ 63"

text \<open>
  \<open>getDiskUsageInternal\<close> and \<open>checkAuthorization\<close> call each other in the source:
  \<open>getDiskUsageInternal(true)\<close> first checks the authorization, and the check probes
  the server with \<open>getDiskUsageInternal(false)\<close>. \<open>getDiskUsageRequest\<close> is the part
  of \<open>getDiskUsageInternal\<close> after that check. The conversions \<open>int64(x)\<close> of the
  floats truncate, and the products with 1024 wrap around.
\<close>

definition getDiskUsageRequest :: "env \<Rightarrow> Account \<Rightarrow> world \<Rightarrow> (error + DiskUsage) \<times> world" where
  "getDiskUsageRequest E a w =
    (let diskSpaceURL = BaseMailRuCloud @ DiskSpace (Email a) (authToken a) in
     case Do E (GET diskSpaceURL) w of
       (NoResponse, w1) \<Rightarrow> (Inl TransportError, w1)
     | (Response status b, w1) \<Rightarrow>
         if status \<noteq> 200 then (Inl (NotAuthorizedError ''The client is not authorized'' []), w1)
         else
           (case readSpace b of
              Inl err \<Rightarrow> (Inl err, w1)
            | Inr (bytesTotal, bytesUsed) \<Rightarrow>
                (Inr \<lparr>Total = NewSize (wrap64 (wrap64 (trunc bytesTotal * 1024) * 1024)),
                      Used = NewSize (wrap64 (wrap64 (trunc bytesUsed * 1024) * 1024)),
                      Free = NewSize (wrap64 (wrap64 (trunc (bytesTotal - bytesUsed) * 1024) * 1024))\<rparr>,
                 w1)))"

definition Account_checkAuthorization ::
  "env \<Rightarrow> Account \<Rightarrow> bool \<Rightarrow> world \<Rightarrow> error option \<times> world" where
  "Account_checkAuthorization E a baseCheckout w =
    (if Email a = [] then (Some (NotAuthorizedError ''Email is not defined'' ''Login''), w)
     else if Password a = [] then
       (Some (NotAuthorizedError ''Password is not defined'' ''Password''), w)
     else if \<not> baseCheckout then
       (if \<not> cookies a then (Some (NotAuthorizedError ''No cookies'' []), w)
        else if authToken a = [] then
          (Some (NotAuthorizedError ''No authorization token'' []), w)
        else
          (case getDiskUsageRequest E a w of
             (Inl err, w1) \<Rightarrow> (Some err, w1)
           | (Inr usage, w1) \<Rightarrow> (None, w1)))
     else (None, w))"

definition getDiskUsageInternal ::
  "env \<Rightarrow> Account \<Rightarrow> bool \<Rightarrow> world \<Rightarrow> (error + DiskUsage) \<times> world" where
  "getDiskUsageInternal E a checkAuthorization w =
    (if checkAuthorization then
       (case Account_checkAuthorization E a False w of
          (Some err, w1) \<Rightarrow> (Inl err, w1)
        | (None, w1) \<Rightarrow> getDiskUsageRequest E a w1)
     else getDiskUsageRequest E a w)"

definition GetDiskUsage :: "env \<Rightarrow> Account \<Rightarrow> world \<Rightarrow> (error + DiskUsage) \<times> world" where
  "GetDiskUsage E a w = getDiskUsageInternal E a True w"

text \<open>
  The exported \<open>CheckAuthorization\<close> turns a failed check into \<open>(false, nil)\<close>: the error
  it returns is always nil.
\<close>

definition Account_CheckAuthorization ::
  "env \<Rightarrow> Account \<Rightarrow> world \<Rightarrow> (bool \<times> error option) \<times> world" where
  "Account_CheckAuthorization E a w =
    (case Account_checkAuthorization E a False w of
       (Some err, w1) \<Rightarrow> ((False, None), w1)
     | (None, w1) \<Rightarrow> ((True, None), w1))"

section \<open>The cloud client (cloud_client.go) and the folder (folder.go)\<close>

text \<open>
  The client's progress callback and its cancellation context are left out: a cancelled
  transfer is a request the environment answers with no response.
\<close>

definition CloudClient_checkAuthorization ::
  "env \<Rightarrow> CloudClient \<Rightarrow> world \<Rightarrow> error option \<times> world" where
  "CloudClient_checkAuthorization E c w =
    (case Account_CheckAuthorization E (Account c) w of ((ok, err), w1) \<Rightarrow> (err, w1))"

definition getDefaultFormDataFields :: "CloudClient \<Rightarrow> string list \<Rightarrow> (string \<rightharpoonup> formValue)" where
  "getDefaultFormDataFields c sourceFullPath =
    (let result =
       [''conflict'' \<mapsto> FormString ''rename'',
        ''api'' \<mapsto> FormInt 2,
        ''token'' \<mapsto> FormString (authToken (Account c)),
        ''email'' \<mapsto> FormString (Email (Account c)),
        ''x-email'' \<mapsto> FormString (Email (Account c))]
     in case sourceFullPath of
          [] \<Rightarrow> result
        | p # rest \<Rightarrow> if p \<noteq> [] then result(''home'' \<mapsto> FormString p) else result)"

text \<open>
  \<open>GetFolder\<close> answers \<open>(nil, nil)\<close> (here \<open>Inr None\<close>) to any status but 200. It reads
  \<open>deserialized.Count.Files\<close> through the pointer \<open>Count\<close>, which panics when the answer
  has no count. The counts go to the embedded \<open>CloudStructureEntryBase\<close>; the folder's own
  \<open>FoldersCount\<close> and \<open>FilesCount\<close>, its \<open>prevDiskUsed\<close> and its
  \<open>lastItemsGettingTime\<close> are not named in the literal and keep their zero values.
\<close>

definition GetFolder ::
  "env \<Rightarrow> CloudClient \<Rightarrow> string list \<Rightarrow> world \<Rightarrow> (error + Folder option) \<times> world" where
  "GetFolder E c fullPath w =
    (case CloudClient_checkAuthorization E c w of
       (Some err, w1) \<Rightarrow> (Inl err, w1)
     | (None, w1) \<Rightarrow>
         (let path0 = (case fullPath of [] \<Rightarrow> [] | p # rest \<Rightarrow> p);
              path = getPathStartEndSlash path0 True True;
              itemsListURL = BaseMailRuCloud @ ItemsList (authToken (Account c)) path
          in case Do E (GET itemsListURL) w1 of
               (NoResponse, w2) \<Rightarrow> (Inl TransportError, w2)
             | (Response status b, w2) \<Rightarrow>
                 if status \<noteq> 200 then (Inr None, w2)
                 else
                   (case readEntry b of
                      Inl err \<Rightarrow> (Inl err, w2)
                    | Inr deserialized \<Rightarrow>
                        (let publicLink =
                               (if Weblink deserialized \<noteq> []
                                then PublicLinkPrefix @ Weblink deserialized else [])
                         in case CloudStructureEntry.Count deserialized of
                              None \<Rightarrow> (Inl NilPointerPanic, w2)
                            | Some cnt \<Rightarrow>
                                (Inr (Some
                                   \<lparr>Folder.Base =
                                      \<lparr>CloudStructureEntryBase.Name = CloudStructureEntry.Name deserialized,
                                       CloudStructureEntryBase.Size =
                                         Some (NewSize (CloudStructureEntry.Size deserialized)),
                                       CloudStructureEntryBase.FullPath = Home deserialized,
                                       CloudStructureEntryBase.PublicLink = publicLink,
                                       CloudStructureEntryBase.FilesCount = Count.Files cnt,
                                       CloudStructureEntryBase.FoldersCount = Count.Folders cnt,
                                       account = Some (Account c),
                                       client = Some c\<rparr>,
                                    Folder.FoldersCount = 0,
                                    Folder.FilesCount = 0,
                                    Items = CloudStructureEntry.List deserialized,
                                    prevDiskUsed = 0,
                                    lastItemsGettingTime = zeroTime\<rparr>),
                                 w2)))))"

text \<open>
  \<open>updateFolderInfo\<close> refreshes the listing of a folder when it has none, when more than
  a second has passed since the last listing and the used disk space has changed, or when
  the caller forces it. The disk usage is only asked for when the listing is there and more
  than a second has passed (the operators \<open>||\<close> and \<open>&&\<close> of the source skip it
  otherwise). An error of \<open>GetFolder\<close> leaves the folder as it is; a panic is not caught.
  Calling a method of the nil \<open>account\<close> or \<open>client\<close> panics.
\<close>

definition updateFolderInfo :: "env \<Rightarrow> Folder \<Rightarrow> bool \<Rightarrow> world \<Rightarrow> (error + Folder) \<times> world" where
  "updateFolderInfo E f forceUpdate w =
    (let (f1, w1) =
           (if lastItemsGettingTime f = zeroTime
            then (case Now E w of (t, w') \<Rightarrow> (f\<lparr>lastItemsGettingTime := t\<rparr>, w'))
            else (f, w));
         (t2, w2) = Now E w1;
         diffTimeOver1s = (t2 - lastItemsGettingTime f1 > 1000000000)
     in
     case (if Items f1 \<noteq> None \<and> diffTimeOver1s then
             (case account (Folder.Base f1) of
                None \<Rightarrow> (Inl NilPointerPanic, w2)
              | Some a \<Rightarrow>
                  (case GetDiskUsage E a w2 of
                     (Inl err, w3) \<Rightarrow> (Inr None, w3)
                   | (Inr usage, w3) \<Rightarrow> (Inr (Some usage), w3)))
           else (Inr None, w2)) of
       (Inl p, w3) \<Rightarrow> (Inl p, w3)
     | (Inr currentDiskSpace, w3) \<Rightarrow>
         (let changed =
                (case currentDiskSpace of
                   None \<Rightarrow> False
                 | Some usage \<Rightarrow> DefaultValue (Used usage) \<noteq> prevDiskUsed f1)
          in
          case (if Items f1 = None \<or> (diffTimeOver1s \<and> changed) \<or> forceUpdate then
                  (case client (Folder.Base f1) of
                     None \<Rightarrow> (Inl NilPointerPanic, w3)
                   | Some c \<Rightarrow>
                       (case GetFolder E c [CloudStructureEntryBase.FullPath (Folder.Base f1)] w3 of
                          (Inr (Some folder), w4) \<Rightarrow>
                            (case Now E w4 of
                               (t, w5) \<Rightarrow>
                                 (Inr (f1\<lparr>Items := Items folder,
                                           Folder.Base := (Folder.Base f1)
                                             \<lparr>CloudStructureEntryBase.Size :=
                                                CloudStructureEntryBase.Size (Folder.Base folder),
                                              PublicLink := PublicLink (Folder.Base folder)\<rparr>,
                                           Folder.FilesCount := Folder.FilesCount folder,
                                           Folder.FoldersCount := Folder.FoldersCount folder,
                                           lastItemsGettingTime := t\<rparr>),
                                  w5))
                        | (Inr None, w4) \<Rightarrow> (Inr f1, w4)
                        | (Inl err, w4) \<Rightarrow>
                            (if err = NilPointerPanic then (Inl NilPointerPanic, w4)
                             else (Inr f1, w4))))
                else (Inr f1, w3)) of
            (Inl p, w5) \<Rightarrow> (Inl p, w5)
          | (Inr f2, w5) \<Rightarrow>
              (Inr (case currentDiskSpace of
                      None \<Rightarrow> f2
                    | Some usage \<Rightarrow> f2\<lparr>prevDiskUsed := DefaultValue (Used usage)\<rparr>),
               w5)))"

text \<open>The loops of \<open>GetFiles\<close> and \<open>GetFolders\<close> over the items of the folder.\<close>

fun filesOfItems ::
  "Account option \<Rightarrow> CloudClient option \<Rightarrow> CloudStructureEntry list \<Rightarrow> File list" where
  "filesOfItems a c [] = []"
| "filesOfItems a c (item # items) =
    (if Type item = ''file'' then
       \<lparr>File.Base =
          \<lparr>CloudStructureEntryBase.Name = CloudStructureEntry.Name item,
           CloudStructureEntryBase.Size = Some (NewSize (CloudStructureEntry.Size item)),
           CloudStructureEntryBase.FullPath = Home item,
           CloudStructureEntryBase.PublicLink =
             (if Weblink item \<noteq> [] then PublicLinkPrefix @ Weblink item else []),
           CloudStructureEntryBase.FilesCount = 0,
           CloudStructureEntryBase.FoldersCount = 0,
           account = a,
           client = c\<rparr>,
        File.Hash = CloudStructureEntry.Hash item,
        File.LastModifiedTimeUTC = Unix (Mtime item) 0\<rparr>
       # filesOfItems a c items
     else filesOfItems a c items)"

definition GetFiles :: "env \<Rightarrow> Folder \<Rightarrow> world \<Rightarrow> (error + File list \<times> Folder) \<times> world" where
  "GetFiles E f w =
    (case updateFolderInfo E f False w of
       (Inl p, w1) \<Rightarrow> (Inl p, w1)
     | (Inr f1, w1) \<Rightarrow>
         (case Items f1 of
            None \<Rightarrow> (Inr ([], f1), w1)
          | Some items \<Rightarrow>
              (Inr (filesOfItems (account (Folder.Base f1)) (client (Folder.Base f1)) items, f1),
               w1)))"

text \<open>
  A sub-folder takes its counts through the pointer \<open>item.Count\<close>; the loop panics at the
  first folder item without a count. Here the counts go to the folder's own fields.
\<close>

fun foldersOfItems ::
  "Account option \<Rightarrow> CloudClient option \<Rightarrow> CloudStructureEntry list \<Rightarrow> error + Folder list" where
  "foldersOfItems a c [] = Inr []"
| "foldersOfItems a c (item # items) =
    (if Type item = ''folder'' then
       (case CloudStructureEntry.Count item of
          None \<Rightarrow> Inl NilPointerPanic
        | Some cnt \<Rightarrow>
            (case foldersOfItems a c items of
               Inl p \<Rightarrow> Inl p
             | Inr folders \<Rightarrow>
                 Inr (\<lparr>Folder.Base =
                         \<lparr>CloudStructureEntryBase.Name = CloudStructureEntry.Name item,
                          CloudStructureEntryBase.Size =
                            Some (NewSize (CloudStructureEntry.Size item)),
                          CloudStructureEntryBase.FullPath = Home item,
                          CloudStructureEntryBase.PublicLink =
                            (if Weblink item \<noteq> [] then PublicLinkPrefix @ Weblink item else []),
                          CloudStructureEntryBase.FilesCount = 0,
                          CloudStructureEntryBase.FoldersCount = 0,
                          account = a,
                          client = c\<rparr>,
                       Folder.FoldersCount = Count.Folders cnt,
                       Folder.FilesCount = Count.Files cnt,
                       Items = CloudStructureEntry.List item,
                       prevDiskUsed = 0,
                       lastItemsGettingTime = zeroTime\<rparr>
                      # folders)))
     else foldersOfItems a c items)"

definition GetFolders :: "env \<Rightarrow> Folder \<Rightarrow> world \<Rightarrow> (error + Folder list \<times> Folder) \<times> world" where
  "GetFolders E f w =
    (case updateFolderInfo E f False w of
       (Inl p, w1) \<Rightarrow> (Inl p, w1)
     | (Inr f1, w1) \<Rightarrow>
         (case Items f1 of
            None \<Rightarrow> (Inr ([], f1), w1)
          | Some items \<Rightarrow>
              (case foldersOfItems (account (Folder.Base f1)) (client (Folder.Base f1)) items of
                 Inl p \<Rightarrow> (Inl p, w1)
               | Inr folders \<Rightarrow> (Inr (folders, f1), w1))))"

text \<open>
  \<open>checkUnknownItemExisting\<close> lists the parent folder and looks for the name among its
  files, then among its folders. When \<open>GetFolder\<close> answers \<open>(nil, nil)\<close>, the call
  \<open>parentFolder.GetFiles()\<close> dereferences the nil folder and panics.
\<close>

definition checkUnknownItemExisting ::
  "env \<Rightarrow> CloudClient \<Rightarrow> string \<Rightarrow> world \<Rightarrow> (error + CloudStructureEntryBase) \<times> world" where
  "checkUnknownItemExisting E c sourceFullPath w =
    (let parentPath = getParentCloudPath sourceFullPath;
         itemName = filepath_Base (TrimSuffix sourceFullPath ''/'')
     in case GetFolder E c [parentPath] w of
          (Inl err, w1) \<Rightarrow> (Inl err, w1)
        | (Inr None, w1) \<Rightarrow> (Inl NilPointerPanic, w1)
        | (Inr (Some parentFolder), w1) \<Rightarrow>
            (case GetFiles E parentFolder w1 of
               (Inl p, w2) \<Rightarrow> (Inl p, w2)
             | (Inr (files, parentFolder1), w2) \<Rightarrow>
                 (case find (\<lambda>file. CloudStructureEntryBase.Name (File.Base file) = itemName) files of
                    Some file \<Rightarrow> (Inr (File.Base file), w2)
                  | None \<Rightarrow>
                      (case GetFolders E parentFolder1 w2 of
                         (Inl p, w3) \<Rightarrow> (Inl p, w3)
                       | (Inr (folders, parentFolder2), w3) \<Rightarrow>
                           (case find (\<lambda>folder. CloudStructureEntryBase.Name (Folder.Base folder) = itemName)
                                   folders of
                              Some folder \<Rightarrow> (Inr (Folder.Base folder), w3)
                            | None \<Rightarrow>
                                (Inl (CloudClientError
                                        ''The source item does not exist in the cloud''
                                        ''sourceFullPath'' ErrorCodePathNotExists),
                                 w3))))))"

text \<open>
  \<open>publishUnpublishInternal\<close> serves \<open>Publish\<close> (the argument is a path) and
  \<open>Unpublish\<close> (the argument is a public link). The pointer \<open>item\<close> is only set when
  publishing.
\<close>

definition publishUnpublishInternal ::
  "env \<Rightarrow> CloudClient \<Rightarrow> string \<Rightarrow> bool \<Rightarrow> world \<Rightarrow> (error + CloudStructureEntryBase) \<times> world" where
  "publishUnpublishInternal E c link0 publish w =
    (if link0 = [] then
       (Inl (CloudClientError ''The link cannot be empty'' [] ErrorCodePathNotExists), w)
     else
       (case CloudClient_checkAuthorization E c w of
          (Some err, w1) \<Rightarrow> (Inl err, w1)
        | (None, w1) \<Rightarrow>
            (case (if publish then
                     (let link = getPathStartEndSlash link0 True False in
                      case checkUnknownItemExisting E c link w1 of
                        (Inl err, w2) \<Rightarrow> (Inl err, w2)
                      | (Inr found, w2) \<Rightarrow> (Inr (Some found, link), w2))
                   else (Inr (None, ReplaceFirst link0 PublicLinkPrefix []), w1)) of
               (Inl err, w2) \<Rightarrow> (Inl err, w2)
             | (Inr (item, link), w2) \<Rightarrow>
                 (let values0 = (getDefaultFormDataFields c [link])(''conflict'' := None);
                      vals =
                        (if \<not> publish
                         then (values0(''home'' := None))(''weblink'' \<mapsto> FormString link)
                         else values0);
                      operation = (if publish then ''publish'' else ''unpublish'')
                  in case Do E (POST (BaseMailRuCloud @ FileRequest @ operation) vals) w2 of
                       (NoResponse, w3) \<Rightarrow> (Inl TransportError, w3)
                     | (Response status b, w3) \<Rightarrow>
                         if status = 404 \<or> status = 400 then
                           (Inl (CloudClientError
                                   (''The item at the given ''
                                      @ (if publish then ''path'' else ''public link'')
                                      @ '' does not exist'')
                                   ''link''
                                   (if \<not> publish then ErrorCodePublicLinkNotExists
                                    else ErrorCodePathNotExists)),
                            w3)
                         else
                           (case readString b of
                              Inl err \<Rightarrow> (Inl err, w3)
                            | Inr result \<Rightarrow>
                                if \<not> publish then checkUnknownItemExisting E c result w3
                                else
                                  (case item of
                                     None \<Rightarrow> (Inl NilPointerPanic, w3)
                                   | Some found \<Rightarrow>
                                       (Inr (found\<lparr>PublicLink := PublicLinkPrefix @ result\<rparr>),
                                        w3)))))))"

definition Publish ::
  "env \<Rightarrow> CloudClient \<Rightarrow> string \<Rightarrow> world \<Rightarrow> (error + CloudStructureEntryBase) \<times> world" where
  "Publish E c sourceFullPath w = publishUnpublishInternal E c sourceFullPath True w"

definition Unpublish ::
  "env \<Rightarrow> CloudClient \<Rightarrow> string \<Rightarrow> world \<Rightarrow> (error + CloudStructureEntryBase) \<times> world" where
  "Unpublish E c publicLink w = publishUnpublishInternal E c publicLink False w"

text \<open>
  \<open>File.Unpublish\<close> (file.go) and \<open>Folder.Unpublish\<close> (folder.go). The handle is
  changed in place and returned; the model returns its new value.
\<close>

definition File_Unpublish :: "env \<Rightarrow> File \<Rightarrow> world \<Rightarrow> (error + File) \<times> world" where
  "File_Unpublish E f w =
    (if PublicLink (File.Base f) = [] then (Inr f, w)
     else
       (case client (File.Base f) of
          None \<Rightarrow> (Inl NilPointerPanic, w)
        | Some c \<Rightarrow>
            (case Unpublish E c (PublicLink (File.Base f)) w of
               (Inl err, w1) \<Rightarrow> (Inl err, w1)
             | (Inr result, w1) \<Rightarrow>
                 (Inr (f\<lparr>File.Base := (File.Base f)\<lparr>PublicLink := PublicLink result\<rparr>\<rparr>), w1))))"

definition Folder_Unpublish :: "env \<Rightarrow> Folder \<Rightarrow> world \<Rightarrow> (error + Folder) \<times> world" where
  "Folder_Unpublish E f w =
    (if PublicLink (Folder.Base f) = [] then (Inr f, w)
     else
       (case client (Folder.Base f) of
          None \<Rightarrow> (Inl NilPointerPanic, w)
        | Some c \<Rightarrow>
            (case Unpublish E c (PublicLink (Folder.Base f)) w of
               (Inl err, w1) \<Rightarrow> (Inl err, w1)
             | (Inr result, w1) \<Rightarrow>
                 (Inr (f\<lparr>Folder.Base := (Folder.Base f)\<lparr>PublicLink := PublicLink result\<rparr>\<rparr>), w1))))"

text \<open>
  \<open>GetFileHistory\<close>: when the decoded list is not empty, its first entry is marked as
  the current version, and every entry gets its \<open>Size\<close> and \<open>LastModifiedTimeUTC\<close> from
  \<open>SizeBytes\<close> and \<open>LastModifiedTimeUnix\<close>.
\<close>

definition fillHistory :: "History \<Rightarrow> History" where
  "fillHistory h =
    h\<lparr>History.Size := Some (NewSize (History.SizeBytes h)),
      History.LastModifiedTimeUTC := Unix (History.LastModifiedTimeUnix h) 0\<rparr>"

fun markCurrentAndFill :: "History list \<Rightarrow> History list" where
  "markCurrentAndFill [] = []"
| "markCurrentAndFill (h # rest) = map fillHistory (h\<lparr>History.IsCurrentVersion := True\<rparr> # rest)"

definition GetFileHistory ::
  "env \<Rightarrow> CloudClient \<Rightarrow> string \<Rightarrow> world \<Rightarrow> (error + History list) \<times> world" where
  "GetFileHistory E c sourceFullPath0 w =
    (if sourceFullPath0 = [] then
       (Inl (CloudClientError ''The path cannot be empty'' [] ErrorCodePathNotExists), w)
     else
       (case CloudClient_checkAuthorization E c w of
          (Some err, w1) \<Rightarrow> (Inl err, w1)
        | (None, w1) \<Rightarrow>
            (let sourceFullPath = getPathStartEndSlash sourceFullPath0 True False;
                 vals = (getDefaultFormDataFields c [sourceFullPath])(''conflict'' := None);
                 historyURL =
                   BaseMailRuCloud
                     @ HistoryURL sourceFullPath (Email (Account c)) (Email (Account c))
                         (authToken (Account c))
             in case Do E (POST historyURL vals) w1 of
                  (NoResponse, w2) \<Rightarrow> (Inl TransportError, w2)
                | (Response status b, w2) \<Rightarrow>
                    if status = 404 then
                      (Inl (CloudClientError ''The file at the given path does not exist''
                              ''sourceFullPath'' ErrorCodePathNotExists),
                       w2)
                    else
                      (case readHistory b of
                         Inl err \<Rightarrow> (Inl err, w2)
                       | Inr historyList \<Rightarrow> (Inr (markCurrentAndFill historyList), w2)))))"

record Created =
  NewName :: string
  NewPath :: string

definition createFileOrFolder ::
  "env \<Rightarrow> CloudClient \<Rightarrow> bool \<Rightarrow> string \<Rightarrow> string \<Rightarrow> int \<Rightarrow> bool \<Rightarrow> world
     \<Rightarrow> (error + Created) \<times> world" where
  "createFileOrFolder E c addFile path hash fileSize rewriteExisting w =
    (case CloudClient_checkAuthorization E c w of
       (Some err, w1) \<Rightarrow> (Inl err, w1)
     | (None, w1) \<Rightarrow>
         (let values0 =
                (getDefaultFormDataFields c [path])
                  (''conflict'' \<mapsto> FormString (if rewriteExisting then ''rewrite'' else ''rename''));
              vals =
                (if addFile \<and> hash \<noteq> [] \<and> fileSize \<noteq> 0
                 then values0(''hash'' \<mapsto> FormString hash, ''size'' \<mapsto> FormInt fileSize)
                 else values0);
              operationType = (if addFile then ''file'' else ''folder'');
              createURL = BaseMailRuCloud @ CreateFileOrFolder operationType
          in case Do E (POST createURL vals) w1 of
               (NoResponse, w2) \<Rightarrow> (Inl TransportError, w2)
             | (Response status b, w2) \<Rightarrow>
                 (case readString b of
                    Inl err \<Rightarrow> (Inl err, w2)
                  | Inr newPath \<Rightarrow>
                      (Inr \<lparr>NewName = filepath_Base newPath, NewPath = newPath\<rparr>, w2))))"

definition RestoreFileFromHistory ::
  "env \<Rightarrow> CloudClient \<Rightarrow> string \<Rightarrow> int \<Rightarrow> bool \<Rightarrow> string \<Rightarrow> world \<Rightarrow> (error + File) \<times> world" where
  "RestoreFileFromHistory E c sourceFullPath historyRevision rewriteExisting newFileName0 w =
    (if historyRevision \<le> 0 then
       (Inl (CloudClientError ''The revision must be greater than 0'' []
               ErrorCodeHistoryNotExists),
        w)
     else if Has2GBUploadSizeLimit (Account c) then
       (Inl (CloudClientError
               ''The operation is not supported for your account. Please upgrade your tariff plan''
               [] ErrorCodeNotSupportedOperation),
        w)
     else
       (case GetFileHistory E c sourceFullPath w of
          (Inl err, w1) \<Rightarrow> (Inl err, w1)
        | (Inr histories, w1) \<Rightarrow>
            (case find (\<lambda>h. History.Revision h = historyRevision) histories of
               None \<Rightarrow>
                 (Inl (CloudClientError ''No history exists for the given revision number''
                         ''historyRevision'' ErrorCodeHistoryNotExists),
                  w1)
             | Some history \<Rightarrow>
                 (let originalFileName = filepath_Base sourceFullPath;
                      extension = filepath_Ext originalFileName;
                      newFileName =
                        (if newFileName0 = [] then originalFileName
                         else if \<not> HasSuffix (ToLower newFileName0) (ToLower extension)
                         then newFileName0 @ extension
                         else newFileName0);
                      newFullPath =
                        (if \<not> rewriteExisting
                         then getParentCloudPath sourceFullPath @ newFileName
                         else sourceFullPath)
                  in case createFileOrFolder E c True newFullPath (History.Hash history)
                            (History.SizeBytes history) rewriteExisting w1 of
                       (Inl err, w2) \<Rightarrow> (Inl err, w2)
                     | (Inr created, w2) \<Rightarrow>
                         (Inr \<lparr>File.Base =
                                 \<lparr>CloudStructureEntryBase.Name = NewName created,
                                  CloudStructureEntryBase.Size = History.Size history,
                                  CloudStructureEntryBase.FullPath = NewPath created,
                                  CloudStructureEntryBase.PublicLink = [],
                                  CloudStructureEntryBase.FilesCount = 0,
                                  CloudStructureEntryBase.FoldersCount = 0,
                                  account = None,
                                  client = None\<rparr>,
                               File.Hash = History.Hash history,
                               File.LastModifiedTimeUTC = History.LastModifiedTimeUTC history\<rparr>,
                          w2)))))"

definition getShardsInfo :: "env \<Rightarrow> CloudClient \<Rightarrow> world \<Rightarrow> (error + ShardsList) \<times> world" where
  "getShardsInfo E c w =
    (case CloudClient_checkAuthorization E c w of
       (Some err, w1) \<Rightarrow> (Inl err, w1)
     | (None, w1) \<Rightarrow>
         (case Do E (GET (BaseMailRuCloud @ Dispatcher (authToken (Account c)))) w1 of
            (NoResponse, w2) \<Rightarrow> (Inl TransportError, w2)
          | (Response status b, w2) \<Rightarrow>
              (case readShards b of
                 Inl err \<Rightarrow> (Inl err, w2)
               | Inr shardsList \<Rightarrow> (Inr shardsList, w2))))"

text \<open>
  The content of an upload is an \<open>io.Reader\<close>: reading it to the end either fails or
  gives its bytes. \<open>UploadFileFromStream\<close> reads the whole content first, and sends it
  with one PUT request to the first upload shard.
\<close>

datatype reader = FailingReader | Reader string

definition UploadFileFromStream ::
  "env \<Rightarrow> CloudClient \<Rightarrow> string \<Rightarrow> reader \<Rightarrow> string \<Rightarrow> world \<Rightarrow> (error + File) \<times> world" where
  "UploadFileFromStream E c destFileName content destFolderPath0 w =
    (case CloudClient_checkAuthorization E c w of
       (Some err, w1) \<Rightarrow> (Inl err, w1)
     | (None, w1) \<Rightarrow>
         (let destFolderPath = getPathStartEndSlash destFolderPath0 True True in
          if destFileName = [] then
            (Inl (CloudClientError ''The file name cannot be empty'' [] ErrorCodePathNotExists), w1)
          else
            (case content of
               FailingReader \<Rightarrow> (Inl ReadError, w1)
             | Reader contentBytes \<Rightarrow>
                 if length contentBytes = 0 then
                   (Inl (CloudClientError ''The content cannot be empty'' []
                           ErrorCodePathNotExists),
                    w1)
                 else if destFolderPath = [] then
                   (Inl (CloudClientError ''The destination folder path cannot be empty'' []
                           ErrorCodePathNotExists),
                    w1)
                 else
                   (case GetFolder E c [destFolderPath] w1 of
                      (Inl err, w2) \<Rightarrow>
                        (if err = NilPointerPanic then (Inl NilPointerPanic, w2)
                         else
                           (Inl (CloudClientError ''The path does not exist'' ''destFolderPath''
                                   ErrorCodePathNotExists),
                            w2))
                    | (Inr folder, w2) \<Rightarrow>
                        (let fileSize = int (length contentBytes);
                             sizeLimit =
                               (if \<not> Has2GBUploadSizeLimit (Account c)
                                then 32768 * 1024 * 1024
                                else 2048 * 1024 * 1024)
                         in
                         if fileSize > sizeLimit then
                           (Inl (CloudClientError
                                   (''The maximum upload size limit is ''
                                      @ showInt (sizeLimit div (1024 * 1024 * 1024)) @ ''GB'')
                                   ''content'' ErrorCodeUploadingSizeLimit),
                            w2)
                         else
                           (case getShardsInfo E c w2 of
                              (Inl err, w3) \<Rightarrow> (Inl err, w3)
                            | (Inr shards, w3) \<Rightarrow>
                                (case Upload shards of
                                   [] \<Rightarrow> (Inl (Errorf ''Upload shards not found''), w3)
                                 | shard # others \<Rightarrow>
                                     (let uploadURL =
                                            UploadFileURL (ShardInfo.URL shard) (Email (Account c))
                                      in case Do E (PUT uploadURL contentBytes) w3 of
                                           (NoResponse, w4) \<Rightarrow> (Inl TransportError, w4)
                                         | (Response status b, w4) \<Rightarrow>
                                             (case readString b of
                                                Inl err \<Rightarrow> (Inl err, w4)
                                              | Inr hash \<Rightarrow>
                                                  (case createFileOrFolder E c True
                                                          (destFolderPath @ destFileName) hash
                                                          fileSize False w4 of
                                                     (Inl err, w5) \<Rightarrow> (Inl err, w5)
                                                   | (Inr createdFile, w5) \<Rightarrow>
                                                       (case Now E w5 of
                                                          (t, w6) \<Rightarrow>
                                                            (Inr \<lparr>File.Base =
  \<lparr>CloudStructureEntryBase.Name = NewName createdFile,
   CloudStructureEntryBase.Size = Some (NewSize fileSize),
   CloudStructureEntryBase.FullPath = NewPath createdFile,
   CloudStructureEntryBase.PublicLink = [],
   CloudStructureEntryBase.FilesCount = 0,
   CloudStructureEntryBase.FoldersCount = 0,
   account = Some (Account c),
   client = Some c\<rparr>,
 File.Hash = hash,
 File.LastModifiedTimeUTC = t\<rparr>,
                                                             w6))))))))))))"

text \<open>
  The loop of \<open>GetDirectLinkZIPArchive\<close> over the paths: \<open>commonPath\<close> is taken from the
  first parent seen while it is still empty, \<open>allHasCommonPath\<close> stays true as long as
  every parent equals it, and every path is normalised and put in double quotes.
\<close>

fun zipLoop :: "string \<Rightarrow> bool \<Rightarrow> string list \<Rightarrow> string \<times> bool \<times> string list" where
  "zipLoop commonPath allHasCommonPath [] = (commonPath, allHasCommonPath, [])"
| "zipLoop commonPath allHasCommonPath (path # paths) =
    (let parentPath = getParentCloudPath path;
         commonPath1 = (if commonPath = [] then parentPath else commonPath);
         allHasCommonPath1 = (allHasCommonPath \<and> commonPath1 = parentPath)
     in case zipLoop commonPath1 allHasCommonPath1 paths of
          (commonPath2, allHasCommonPath2, processedPaths) \<Rightarrow>
            (commonPath2, allHasCommonPath2,
             ([CHR 0x22] @ getPathStartEndSlash path True False @ [CHR 0x22]) # processedPaths))"

definition GetDirectLinkZIPArchive ::
  "env \<Rightarrow> CloudClient \<Rightarrow> string list \<Rightarrow> string \<Rightarrow> world \<Rightarrow> (error + string) \<times> world" where
  "GetDirectLinkZIPArchive E c filesAndFoldersPaths destZipArchiveName0 w =
    (if filesAndFoldersPaths = [] then
       (Inl (CloudClientError ''The list of paths cannot be empty'' [] ErrorCodePathNotExists), w)
     else if list_ex (\<lambda>path. path = [] \<or> path = ''/'') filesAndFoldersPaths then
       (Inl (CloudClientError ''One of the paths is empty or points to the home directory'' []
               ErrorCodePathNotExists),
        w)
     else
       (case CloudClient_checkAuthorization E c w of
          (Some err, w1) \<Rightarrow> (Inl err, w1)
        | (None, w1) \<Rightarrow>
            (let (name1, w2) =
                   (if destZipArchiveName0 = []
                    then (case Now E w1 of (t, w') \<Rightarrow> (showInt (t div 1000000000), w'))
                    else (destZipArchiveName0, w1));
                 destZipArchiveName =
                   (if \<not> HasSuffix (ToLower name1) ''.zip'' then name1 @ ''.zip'' else name1)
             in case zipLoop [] True filesAndFoldersPaths of
                  (commonPath, allHasCommonPath, processedPaths) \<Rightarrow>
                    if \<not> allHasCommonPath then
                      (Inl (CloudClientError
                              ''Some files or folders have different parent paths. All items must have a common parent folder''
                              ''filesAndFoldersPaths'' ErrorCodeDifferentParentPaths),
                       w2)
                    else
                      (let pathsStr = ''['' @ Join processedPaths '','' @ '']'';
                           vals =
                             [''home_list'' \<mapsto> FormString pathsStr,
                              ''name'' \<mapsto> FormString destZipArchiveName,
                              ''api'' \<mapsto> FormInt 2,
                              ''token'' \<mapsto> FormString (authToken (Account c)),
                              ''email'' \<mapsto> FormString (Email (Account c))]
                       in case Do E (POST (BaseMailRuCloud @ CreateZipArchive) vals) w2 of
                            (NoResponse, w3) \<Rightarrow> (Inl TransportError, w3)
                          | (Response status b, w3) \<Rightarrow>
                              if status = 422 then
                                (Inl (CloudClientError
                                        ''The maximum download size limit is 4GB'' []
                                        ErrorCodeDownloadingSizeLimit),
                                 w3)
                              else
                                (case readString b of
                                   Inl err \<Rightarrow> (Inl err, w3)
                                 | Inr directLink \<Rightarrow> (Inr directLink, w3))))))"

section \<open>Notions used in the statements\<close>

text \<open>
  The request with which the authorization check probes the server, and the world after
  the check of the client (which never returns an error, see
  \<open>CloudClient_checkAuthorization_eq\<close>).
\<close>

definition authorizationProbe :: "CloudClient \<Rightarrow> request" where
  "authorizationProbe c =
    GET (BaseMailRuCloud @ DiskSpace (Email (Account c)) (authToken (Account c)))"

definition afterCheck :: "env \<Rightarrow> CloudClient \<Rightarrow> world \<Rightarrow> world" where
  "afterCheck E c w = snd (CloudClient_checkAuthorization E c w)"

section \<open>Example values\<close>

text \<open>Concrete accounts, servers and clocks at which the theorems below are evaluated.\<close>

definition tariff :: "string \<Rightarrow> Rate" where
  "tariff rateID =
    \<lparr>Rate.Name = rateID, IsActive = True, Rate.ID = rateID, IsAvailable = True,
     Rate.Size = None, Rate.SizeBytes = 0\<rparr>"

definition accountWith :: "Rate list \<Rightarrow> Account" where
  "accountWith tariffs =
    \<lparr>Email = ''user@mail.ru'', Password = ''secret'', ActivatedTariffs = tariffs,
     authToken = ''token'', cookies = True\<rparr>"

definition exampleClient :: CloudClient where
  "exampleClient = \<lparr>Account = accountWith [tariff ''PRO'']\<rparr>"

definition limitedClient :: CloudClient where
  "limitedClient = \<lparr>Account = accountWith [tariff ''ZERO'']\<rparr>"

definition emptyWorld :: world where
  "emptyWorld = \<lparr>requests = [], clockReads = 0\<rparr>"

definition exampleHistory :: "HistoryJSON list" where
  "exampleHistory =
    [\<lparr>json_uid = 7, json_name = ''x.txt'', json_path = ''/t/x.txt'', json_rev = 2,
      json_hash = ''H2'', json_time = 1700000000, json_size = 2048\<rparr>,
     \<lparr>json_uid = 6, json_name = ''x.txt'', json_path = ''/t/x.txt'', json_rev = 1,
      json_hash = ''H1'', json_time = 1600000000, json_size = 10\<rparr>]"

text \<open>
  A server that accepts the authorization probe and answers a history request with two
  revisions.
\<close>

definition exampleServer :: "nat \<Rightarrow> request \<Rightarrow> response" where
  "exampleServer n req =
    (if HasPrefix (URL req) (BaseMailRuCloud @ ''/api/v2/user/space'') then
       Response 200 (JSONSpace 100 10)
     else if HasPrefix (URL req) (BaseMailRuCloud @ ''/api/v2/file/history'') then
       Response 200 (JSONHistory exampleHistory)
     else Response 404 Undecodable)"

definition exampleEnv :: env where
  "exampleEnv = \<lparr>server = exampleServer, clock = (\<lambda>n. 1700000000000000000)\<rparr>"

definition exampleFile :: File where
  "exampleFile =
    \<lparr>File.Base =
       \<lparr>CloudStructureEntryBase.Name = ''x.txt'',
        CloudStructureEntryBase.Size = Some (NewSize 10),
        CloudStructureEntryBase.FullPath = ''/t/x.txt'',
        CloudStructureEntryBase.PublicLink = [],
        CloudStructureEntryBase.FilesCount = 0,
        CloudStructureEntryBase.FoldersCount = 0,
        account = Some (Account exampleClient),
        client = Some exampleClient\<rparr>,
     File.Hash = ''H1'',
     File.LastModifiedTimeUTC = Unix 1600000000 0\<rparr>"

definition exampleFolder :: Folder where
  "exampleFolder =
    \<lparr>Folder.Base =
       \<lparr>CloudStructureEntryBase.Name = ''t'',
        CloudStructureEntryBase.Size = Some (NewSize 10),
        CloudStructureEntryBase.FullPath = ''/t'',
        CloudStructureEntryBase.PublicLink = [],
        CloudStructureEntryBase.FilesCount = 0,
        CloudStructureEntryBase.FoldersCount = 0,
        account = Some (Account exampleClient),
        client = Some exampleClient\<rparr>,
     Folder.FoldersCount = 0,
     Folder.FilesCount = 1,
     Items = None,
     prevDiskUsed = 0,
     lastItemsGettingTime = zeroTime\<rparr>"

section \<open>Properties\<close>

subsection \<open>Sizes\<close>










subsection \<open>Tariffs\<close>

lemma allTariffsZERO_iff: "allTariffsZERO rates = (\<forall>rate \<in> set rates. Rate.ID rate = ''ZERO'')"
  by (induction rates) auto

text \<open>
  Claim C1. \<open>Has2GBUploadSizeLimit\<close> is true exactly when every activated tariff of the
  account has the ID \<open>ZERO\<close>. So it is true for an account without activated tariffs, and
  false as soon as one activated tariff has another ID.
\<close>

theorem Has2GBUploadSizeLimit_iff:
  "Has2GBUploadSizeLimit a = (\<forall>rate \<in> set (ActivatedTariffs a). Rate.ID rate = ''ZERO'')"
  by (simp add: Has2GBUploadSizeLimit_def allTariffsZERO_iff)

theorem Has2GBUploadSizeLimit_iff_witness:
  "Has2GBUploadSizeLimit (accountWith [tariff ''ZERO''])
   \<and> \<not> Has2GBUploadSizeLimit (accountWith [tariff ''ZERO'', tariff ''PRO''])
   \<and> Has2GBUploadSizeLimit (accountWith [])"
  using Has2GBUploadSizeLimit_iff [of "accountWith [tariff ''ZERO'']"]
    Has2GBUploadSizeLimit_iff [of "accountWith [tariff ''ZERO'', tariff ''PRO'']"]
    Has2GBUploadSizeLimit_iff [of "accountWith []"]
  by (simp add: accountWith_def tariff_def)

subsection \<open>Paths\<close>

lemma replaceSlashRuns_append:
  "replaceSlashRuns b (xs @ ys) =
     replaceSlashRuns b xs @ replaceSlashRuns (if xs = [] then b else isSlash (last xs)) ys"
  by (induction xs arbitrary: b) auto

lemma replaceSlashRuns_idem:
  "replaceSlashRuns b (replaceSlashRuns b xs) = replaceSlashRuns b xs"
proof (induction xs arbitrary: b)
  case Nil
  then show ?case by simp
next
  case (Cons c cs)
  show ?case
  proof (cases "isSlash c")
    case True
    then show ?thesis using Cons [of True] by (cases b) (auto simp: isSlash_def)
  next
    case False
    have "replaceSlashRuns False (replaceSlashRuns False cs) = replaceSlashRuns False cs"
      by (rule Cons)
    then show ?thesis using False by simp
  qed
qed

lemma replaceSlashRuns_False_Nil: "replaceSlashRuns False xs = [] \<longleftrightarrow> xs = []"
  by (cases xs) auto

lemma replaceSlashRuns_last:
  "xs \<noteq> [] \<Longrightarrow> isSlash (last xs) \<Longrightarrow> replaceSlashRuns b xs \<noteq> [] \<Longrightarrow>
     last (replaceSlashRuns b xs) = CHR ''/''"
  by (induction xs arbitrary: b) (auto simp: replaceSlashRuns_False_Nil split: if_splits)

lemma replaceSlashRuns_snoc_last:
  "replaceSlashRuns b (xs @ ''/'') \<noteq> [] \<Longrightarrow> last (replaceSlashRuns b (xs @ ''/'')) = CHR ''/''"
  by (rule replaceSlashRuns_last) (auto simp: isSlash_def)

lemma replaceSlashRuns_snoc_Nil: "replaceSlashRuns b (xs @ ''/'') = [] \<Longrightarrow> b"
  by (cases b) (auto simp: replaceSlashRuns_False_Nil)

lemma replaceSlashRuns_end:
  "replaceSlashRuns b (replaceSlashRuns b (xs @ ''/'') @ ''/'') = replaceSlashRuns b (xs @ ''/'')"
proof -
  define r where "r = replaceSlashRuns b (xs @ ''/'')"
  have idem: "replaceSlashRuns b r = r"
    by (simp add: r_def replaceSlashRuns_idem)
  have st: "(if r = [] then b else isSlash (last r))"
  proof (cases "r = []")
    case True
    then show ?thesis using replaceSlashRuns_snoc_Nil [of b xs] by (simp add: r_def)
  next
    case False
    then show ?thesis
      using replaceSlashRuns_snoc_last [of b xs] by (simp add: r_def isSlash_def)
  qed
  have "replaceSlashRuns b (r @ ''/'') =
          replaceSlashRuns b r @ replaceSlashRuns (if r = [] then b else isSlash (last r)) ''/''"
    by (rule replaceSlashRuns_append)
  also have "\<dots> = r" using st idem by (simp add: isSlash_def)
  finally show ?thesis by (simp add: r_def)
qed

text \<open>
  Claim C7. Normalising a path is idempotent: for every path and both flags, applying
  \<open>getPathStartEndSlash\<close> with the same flags to its own result changes nothing.
\<close>

theorem getPathStartEndSlash_idempotent:
  "getPathStartEndSlash (getPathStartEndSlash path setAtStart setAtEnd) setAtStart setAtEnd
     = getPathStartEndSlash path setAtStart setAtEnd"
proof (cases setAtStart; cases setAtEnd)
  assume "setAtStart" "setAtEnd"
  then show ?thesis
    using replaceSlashRuns_end [of True path] by (simp add: getPathStartEndSlash_def isSlash_def)
next
  assume "setAtStart" "\<not> setAtEnd"
  then show ?thesis
    using replaceSlashRuns_idem [of True path] by (simp add: getPathStartEndSlash_def isSlash_def)
next
  assume "\<not> setAtStart" "setAtEnd"
  then show ?thesis
    using replaceSlashRuns_end [of False path] by (simp add: getPathStartEndSlash_def)
next
  assume "\<not> setAtStart" "\<not> setAtEnd"
  then show ?thesis
    using replaceSlashRuns_idem [of False path] by (simp add: getPathStartEndSlash_def)
qed

subsection \<open>The authorization check\<close>

lemma failsWith_Inl:
  "failsWith (Inl e) kind = (\<exists>message source. e = CloudClientError message source kind)"
  by (cases e) auto

lemma failsWith_Inr: "\<not> failsWith (Inr v) kind"
  by simp

lemma failsWith_case_prod_sum:
  "failsWith (fst (case r of (Inl err, w2) \<Rightarrow> (Inl err, w2) | (Inr v, w2) \<Rightarrow> (Inr (g v w2), h v w2))) kind
     = failsWith (fst r) kind"
  by (cases r; cases "fst r") (simp_all add: failsWith_Inl)

lemma readString_error: "readString b = Inl err \<Longrightarrow> err = ReadError \<or> err = DecodeError"
  by (cases b) auto

lemma getDiskUsageRequest_world:
  "snd (getDiskUsageRequest E a w) =
     w\<lparr>requests := requests w @ [GET (BaseMailRuCloud @ DiskSpace (Email a) (authToken a))]\<rparr>"
  by (auto simp: getDiskUsageRequest_def Do_def Let_def split: response.splits sum.splits prod.splits)

lemma Account_checkAuthorization_world:
  "snd (Account_checkAuthorization E a b w) = w
   \<or> snd (Account_checkAuthorization E a b w) =
       w\<lparr>requests := requests w @ [GET (BaseMailRuCloud @ DiskSpace (Email a) (authToken a))]\<rparr>"
  using getDiskUsageRequest_world [of E a w]
  by (auto simp: Account_checkAuthorization_def split: prod.splits sum.splits)

text \<open>
  The check of the client never returns an error: \<open>Account.CheckAuthorization\<close> answers
  \<open>(false, nil)\<close> when the check fails, and the client only looks at the error. Its
  one effect is the probe request, when the credentials are complete.
\<close>

lemma CloudClient_checkAuthorization_fst:
  "fst (CloudClient_checkAuthorization E c w) = None"
  by (simp add: CloudClient_checkAuthorization_def Account_CheckAuthorization_def
      split: prod.splits option.splits)

lemma CloudClient_checkAuthorization_eq:
  "CloudClient_checkAuthorization E c w = (None, afterCheck E c w)"
  by (simp add: afterCheck_def prod_eq_iff CloudClient_checkAuthorization_fst)

lemma afterCheck_cases:
  "afterCheck E c w = w \<or> afterCheck E c w = w\<lparr>requests := requests w @ [authorizationProbe c]\<rparr>"
  using Account_checkAuthorization_world [of E "Account c" False w]
  by (auto simp: afterCheck_def CloudClient_checkAuthorization_def Account_CheckAuthorization_def
      authorizationProbe_def split: prod.splits option.splits)

lemma createFileOrFolder_never_failsWith:
  "\<not> failsWith (fst (createFileOrFolder E c addFile path hash fileSize rewriteExisting w)) kind"
  apply (simp only: createFileOrFolder_def CloudClient_checkAuthorization_eq Let_def Do_def
      prod.case option.case)
  apply (split response.split)
  apply (intro conjI allI impI)
   apply (simp only: fst_conv failsWith_Inl)
   apply blast
  apply (split sum.split)
  apply (intro conjI allI impI)
   apply (simp only: fst_conv failsWith_Inl)
   apply (drule readString_error)
   apply blast
  apply (simp only: fst_conv failsWith_Inr not_False_eq_True)
  done

subsection \<open>The example server\<close>

lemma server_exampleEnv: "server exampleEnv = exampleServer"
  by (simp add: exampleEnv_def)

lemma example_probe:
  "exampleServer n (authorizationProbe exampleClient) = Response 200 (JSONSpace 100 10)"
  by (simp add: exampleServer_def authorizationProbe_def GET_def HasPrefix_def
      BaseMailRuCloud_def DiskSpace_def)

lemma example_checkAuthorization:
  "CloudClient_checkAuthorization exampleEnv exampleClient w =
     (None, w\<lparr>requests := requests w @ [authorizationProbe exampleClient]\<rparr>)"
  using example_probe [of "length (requests w)"]
  by (simp add: CloudClient_checkAuthorization_def Account_CheckAuthorization_def
      Account_checkAuthorization_def getDiskUsageRequest_def Do_def Let_def server_exampleEnv
      authorizationProbe_def exampleClient_def accountWith_def)

lemma exampleClient_not_limited: "\<not> Has2GBUploadSizeLimit (Account exampleClient)"
  by (simp add: exampleClient_def accountWith_def tariff_def Has2GBUploadSizeLimit_def)

lemma limitedClient_limited: "Has2GBUploadSizeLimit (Account limitedClient)"
  by (simp add: limitedClient_def accountWith_def tariff_def Has2GBUploadSizeLimit_def)

subsection \<open>Unpublishing an entry that has no public link\<close>

text \<open>
  Claim C10. For a file or a folder whose \<open>PublicLink\<close> is empty, the method
  \<open>Unpublish\<close> of the entry returns the handle itself, with every field as it was, and
  no error; the world is the same afterwards, so no request was issued and the
  \<open>Unpublish\<close> of the client was not called.
\<close>

theorem entry_Unpublish_empty_link:
  "(PublicLink (File.Base f) = [] \<longrightarrow> File_Unpublish E f w = (Inr f, w))
   \<and> (PublicLink (Folder.Base d) = [] \<longrightarrow> Folder_Unpublish E d w = (Inr d, w))"
  by (simp add: File_Unpublish_def Folder_Unpublish_def)

theorem entry_Unpublish_empty_link_witness:
  "File_Unpublish exampleEnv exampleFile emptyWorld = (Inr exampleFile, emptyWorld)
   \<and> Folder_Unpublish exampleEnv exampleFolder emptyWorld = (Inr exampleFolder, emptyWorld)"
  using entry_Unpublish_empty_link [of exampleFile exampleEnv emptyWorld exampleFolder]
  by (simp add: exampleFile_def exampleFolder_def)

subsection \<open>The history of a file\<close>






lemma example_GetFileHistory:
  "fst (GetFileHistory exampleEnv exampleClient ''/t/x.txt'' emptyWorld) =
     Inr (markCurrentAndFill (map decodeHistory exampleHistory))"
  by (simp add: GetFileHistory_def example_checkAuthorization Do_def Let_def server_exampleEnv
      exampleServer_def HasPrefix_def BaseMailRuCloud_def HistoryURL_def POST_def
      getPathStartEndSlash_def isSlash_def)


subsection \<open>Restoring a file from its history\<close>

lemma RestoreFileFromHistory_not_found:
  assumes "0 < historyRevision" and "\<not> Has2GBUploadSizeLimit (Account c)"
    and "GetFileHistory E c sourceFullPath w = (Inr histories, w1)"
    and "\<forall>h \<in> set histories. History.Revision h \<noteq> historyRevision"
  shows "RestoreFileFromHistory E c sourceFullPath historyRevision rewriteExisting newFileName w =
           (Inl (CloudClientError ''No history exists for the given revision number''
                   ''historyRevision'' ErrorCodeHistoryNotExists), w1)"
proof -
  have "find (\<lambda>h. History.Revision h = historyRevision) histories = None"
    using assms(4) by (simp add: find_None_iff)
  then show ?thesis using assms(1-3) by (simp add: RestoreFileFromHistory_def)
qed

lemma RestoreFileFromHistory_found:
  assumes "0 < historyRevision" and "\<not> Has2GBUploadSizeLimit (Account c)"
    and "GetFileHistory E c sourceFullPath w = (Inr histories, w1)"
    and "\<exists>h \<in> set histories. History.Revision h = historyRevision"
  shows "\<not> failsWith
           (fst (RestoreFileFromHistory E c sourceFullPath historyRevision rewriteExisting
                   newFileName w))
           ErrorCodeHistoryNotExists"
proof -
  from assms(4) obtain h where
    "find (\<lambda>h. History.Revision h = historyRevision) histories = Some h"
    by (cases "find (\<lambda>h. History.Revision h = historyRevision) histories")
      (auto simp: find_None_iff)
  then show ?thesis
    using assms(1-3)
    by (simp add: RestoreFileFromHistory_def Let_def failsWith_case_prod_sum
        createFileOrFolder_never_failsWith)
qed

text \<open>
  Claim C4. \<open>RestoreFileFromHistory\<close> makes its checks in this order. A revision that is
  not positive fails with \<open>HistoryNotExists\<close>. For a positive revision, an account with
  the 2GB limit fails with \<open>NotSupportedOperation\<close>. Both happen before any request (the
  world is unchanged). For a positive revision and an account without the limit, once the
  history is fetched, the call fails with \<open>HistoryNotExists\<close> exactly when a scan of the
  fetched entries finds none with that revision.
\<close>

theorem RestoreFileFromHistory_rejections:
  "(historyRevision \<le> 0 \<longrightarrow>
      failsWith (fst (RestoreFileFromHistory E c path historyRevision rewriteExisting newName w))
        ErrorCodeHistoryNotExists
      \<and> snd (RestoreFileFromHistory E c path historyRevision rewriteExisting newName w) = w)
   \<and> (0 < historyRevision \<and> Has2GBUploadSizeLimit (Account c) \<longrightarrow>
      failsWith (fst (RestoreFileFromHistory E c path historyRevision rewriteExisting newName w))
        ErrorCodeNotSupportedOperation
      \<and> snd (RestoreFileFromHistory E c path historyRevision rewriteExisting newName w) = w)
   \<and> (0 < historyRevision \<and> \<not> Has2GBUploadSizeLimit (Account c)
       \<and> GetFileHistory E c path w = (Inr histories, w1) \<longrightarrow>
      failsWith (fst (RestoreFileFromHistory E c path historyRevision rewriteExisting newName w))
        ErrorCodeHistoryNotExists
      = (\<forall>h \<in> set histories. History.Revision h \<noteq> historyRevision))"
proof (intro conjI impI)
  assume "historyRevision \<le> 0"
  then show "failsWith (fst (RestoreFileFromHistory E c path historyRevision rewriteExisting newName w))
        ErrorCodeHistoryNotExists" by (simp add: RestoreFileFromHistory_def)
  from \<open>historyRevision \<le> 0\<close>
  show "snd (RestoreFileFromHistory E c path historyRevision rewriteExisting newName w) = w"
    by (simp add: RestoreFileFromHistory_def)
next
  assume a: "0 < historyRevision \<and> Has2GBUploadSizeLimit (Account c)"
  then show "failsWith (fst (RestoreFileFromHistory E c path historyRevision rewriteExisting newName w))
        ErrorCodeNotSupportedOperation" by (simp add: RestoreFileFromHistory_def)
  from a show "snd (RestoreFileFromHistory E c path historyRevision rewriteExisting newName w) = w"
    by (simp add: RestoreFileFromHistory_def)
next
  assume a: "0 < historyRevision \<and> \<not> Has2GBUploadSizeLimit (Account c)
       \<and> GetFileHistory E c path w = (Inr histories, w1)"
  show "failsWith (fst (RestoreFileFromHistory E c path historyRevision rewriteExisting newName w))
        ErrorCodeHistoryNotExists
      = (\<forall>h \<in> set histories. History.Revision h \<noteq> historyRevision)"
  proof (cases "\<forall>h \<in> set histories. History.Revision h \<noteq> historyRevision")
    case True
    then show ?thesis
      using a RestoreFileFromHistory_not_found [of historyRevision c E path w histories w1]
      by simp
  next
    case False
    then show ?thesis
      using a RestoreFileFromHistory_found [of historyRevision c E path w histories w1]
      by auto
  qed
qed

theorem RestoreFileFromHistory_rejections_witness:
  "failsWith (fst (RestoreFileFromHistory exampleEnv exampleClient ''/t/x.txt'' 0 False [] emptyWorld))
     ErrorCodeHistoryNotExists
   \<and> snd (RestoreFileFromHistory exampleEnv exampleClient ''/t/x.txt'' 0 False [] emptyWorld)
       = emptyWorld
   \<and> failsWith (fst (RestoreFileFromHistory exampleEnv limitedClient ''/t/x.txt'' 1 False [] emptyWorld))
     ErrorCodeNotSupportedOperation
   \<and> failsWith (fst (RestoreFileFromHistory exampleEnv exampleClient ''/t/x.txt'' 5 False [] emptyWorld))
     ErrorCodeHistoryNotExists
   \<and> \<not> failsWith (fst (RestoreFileFromHistory exampleEnv exampleClient ''/t/x.txt'' 1 False [] emptyWorld))
     ErrorCodeHistoryNotExists"
proof -
  define hs where "hs = markCurrentAndFill (map decodeHistory exampleHistory)"
  define w1 where "w1 = snd (GetFileHistory exampleEnv exampleClient ''/t/x.txt'' emptyWorld)"
  have e: "GetFileHistory exampleEnv exampleClient ''/t/x.txt'' emptyWorld = (Inr hs, w1)"
    using example_GetFileHistory by (simp add: w1_def hs_def prod_eq_iff)
  have revs: "map History.Revision hs = [2, 1]"
    by (simp add: hs_def exampleHistory_def fillHistory_def decodeHistory_def)
  have five: "\<forall>h \<in> set hs. History.Revision h \<noteq> 5"
    and one: "\<not> (\<forall>h \<in> set hs. History.Revision h \<noteq> 1)"
    using revs by (auto simp: map_eq_Cons_conv)
  show ?thesis
    using RestoreFileFromHistory_rejections
        [of 0 exampleEnv exampleClient "''/t/x.txt''" False "[]" emptyWorld hs w1]
      RestoreFileFromHistory_rejections
        [of 1 exampleEnv limitedClient "''/t/x.txt''" False "[]" emptyWorld hs w1]
      RestoreFileFromHistory_rejections
        [of 5 exampleEnv exampleClient "''/t/x.txt''" False "[]" emptyWorld hs w1]
      RestoreFileFromHistory_rejections
        [of 1 exampleEnv exampleClient "''/t/x.txt''" False "[]" emptyWorld hs w1]
      e five one exampleClient_not_limited limitedClient_limited
    by simp
qed

end
